theory Spec2Isabelle
  imports Complex_Main "HOL-Library.AList" "HOL-Library.List_Lexorder"
begin

section \<open>Python values\<close>

text \<open>
  A Python \<open>str\<close> is a sequence of code points, so a string is a list of naturals:
  \<open>length\<close> is Python's \<open>len\<close>, and the lexicographic order on lists is
  Python's order on strings. \<open>S\<close> turns an ASCII literal into such a string.
\<close>

type_synonym pystr = "nat list"

definition S :: "string \<Rightarrow> pystr" where
  "S s = map of_char s"

text \<open>
  What \<open>json.load\<close> returns. A \<open>dict\<close> keeps its insertion order, so it is an
  association list; \<open>d[k] = v\<close> is \<open>AList.update\<close> (replace in place, or append).
\<close>

datatype json =
    JNull
  | JBool bool
  | JInt int
  | JFloat rat
  | JStr pystr
  | JArr "json list"
  | JObj "(pystr \<times> json) list"

type_synonym pydict = "(pystr \<times> json) list"

datatype exn = JSONDecodeError | TypeError | KeyError | OverflowError | OSError | OtherException

definition has_key :: "pydict \<Rightarrow> pystr \<Rightarrow> bool" where
  "has_key d k = (k \<in> fst ` set d)"

definition dict_get :: "pydict \<Rightarrow> pystr \<Rightarrow> json \<Rightarrow> json" where
  "dict_get d k dflt = (case map_of d k of Some v \<Rightarrow> v | None \<Rightarrow> dflt)"

section \<open>The files the server works on\<close>

definition UPLOAD_BASE :: pystr where
  "UPLOAD_BASE = S ''uploads''"

definition THUMBNAIL_DIR :: pystr where
  "THUMBNAIL_DIR = S ''thumbnails''"

definition METADATA_FILE :: pystr where
  "METADATA_FILE = S ''photo_metadata.json''"

definition backup_file :: pystr where
  "backup_file = METADATA_FILE @ S ''.backup''"

definition temp_file :: pystr where
  "temp_file = METADATA_FILE @ S ''.tmp''"

text \<open>
  The content of a file of the metadata store is described by what
  \<open>open\<close> and \<open>json.load\<close> do on it: it parses to a value, or \<open>json.load\<close>
  raises \<open>JSONDecodeError\<close> (\<open>Malformed\<close>: the bytes decode as UTF-8 to a text that
  is not JSON), or reading raises another exception (\<open>Unreadable\<close>: the file cannot be
  opened, or its bytes are not UTF-8 and decoding raises \<open>UnicodeDecodeError\<close>). Both
  are files that do not hold valid JSON, and both carry the bytes. A file written by
  \<open>json.dump x\<close> is \<open>Json x\<close>: the model takes it that
  \<open>json.load\<close> reads back what \<open>json.dump\<close> wrote.
\<close>

datatype content = Json json | Malformed "nat list" | Unreadable "nat list"

record stat_result =
  st_mtime :: rat
  st_size :: nat

text \<open>
  A name that \<open>os.listdir\<close> gives for a folder is a regular file
  (\<open>os.path.isfile\<close>), with the result of \<open>os.stat\<close> on it (\<open>None\<close> when
  \<open>os.stat\<close> raises), or something else that exists (a directory, say), or a
  symbolic link whose target is missing: \<open>os.path.isfile\<close> and
  \<open>os.path.exists\<close> are both \<open>False\<close> on it. A name that \<open>os.listdir\<close>
  gives for the upload root is a directory that \<open>os.listdir\<close> lists, a directory on
  which \<open>os.listdir\<close> raises, something that exists and is not a directory, or such
  a dangling link.
\<close>

datatype entry = RegularFile "stat_result option" | NotFile | DanglingEntry

datatype folder =
  Folder "(pystr \<times> entry) list" | FolderUnlistable | NotDir | DanglingFolder

datatype tree = NoDir | Unlistable | Listing "(pystr \<times> folder) list"

record fs =
  meta :: "content option"
  tmp :: "content option"
  backup :: "content option"
  uploads :: tree
  thumbs :: "pystr list"
  links :: "(pystr \<times> pystr) list"
  others :: "pystr list"
  open_fds :: "int list"

text \<open>\<open>posixpath.join\<close> of two components.\<close>

definition join :: "pystr \<Rightarrow> pystr \<Rightarrow> pystr" where
  "join a b =
     (if b \<noteq> [] \<and> hd b = 47 then b
      else if a = [] \<or> last a = 47 then a @ b
      else a @ [47] @ b)"

fun in_folder :: "pystr \<Rightarrow> folder \<Rightarrow> pystr \<Rightarrow> bool" where
  "in_folder folder_path (Folder es) p =
     list_ex (\<lambda>(n, e). e \<noteq> DanglingEntry \<and> p = join folder_path n) es"
| "in_folder folder_path FolderUnlistable p = False"
| "in_folder folder_path NotDir p = False"
| "in_folder folder_path DanglingFolder p = False"

fun in_uploads :: "tree \<Rightarrow> pystr \<Rightarrow> bool" where
  "in_uploads (Listing fl) p =
     list_ex (\<lambda>(f, fo). (fo \<noteq> DanglingFolder \<and> p = join UPLOAD_BASE f) \<or>
                          in_folder (join UPLOAD_BASE f) fo p) fl"
| "in_uploads Unlistable p = False"
| "in_uploads NoDir p = False"

text \<open>
  A path taken as it is spelled, the way \<open>os.path.join\<close> builds paths: the three
  files of the metadata store and the upload root exist exactly when the state says so;
  any other path exists when it is a thumbnail written so far, an entry of the upload
  tree that is not a dangling link, or one of the other paths of the volume
  (\<open>others\<close>: files the server never writes, moves or removes, under names that are
  no other name of a file it does).
\<close>

definition exists_as_spelled :: "fs \<Rightarrow> pystr \<Rightarrow> bool" where
  "exists_as_spelled s p =
     (if p = METADATA_FILE then meta s \<noteq> None
      else if p = temp_file then tmp s \<noteq> None
      else if p = backup_file then backup s \<noteq> None
      else if p = UPLOAD_BASE then uploads s \<noteq> NoDir
      else p \<in> set (thumbs s) \<or> in_uploads (uploads s) p \<or> p \<in> set (others s))"

text \<open>
  A path can be another name of a file: another spelling
  (\<open>./photo_metadata.json.tmp\<close>), an absolute path, a symbolic link. \<open>links\<close>
  gives the path such a name stands for, and the name exists exactly when that path
  does. The paths the server forms itself stand for themselves: the files of the store,
  the upload root, what is listed in the upload tree or written as a thumbnail, and
  every path into the two directories of the server (no links inside them).
\<close>

definition own_dir :: "pystr \<Rightarrow> bool" where
  "own_dir p =
     (take (length UPLOAD_BASE + 1) p = UPLOAD_BASE @ [47] \<or>
      take (length THUMBNAIL_DIR + 1) p = THUMBNAIL_DIR @ [47])"

definition stands_for :: "fs \<Rightarrow> pystr \<Rightarrow> pystr" where
  "stands_for s p =
     (if p \<in> {METADATA_FILE, temp_file, backup_file, UPLOAD_BASE} \<or> own_dir p \<or>
         p \<in> set (thumbs s) \<or> in_uploads (uploads s) p
      then p
      else (case map_of (links s) p of Some q \<Rightarrow> q | None \<Rightarrow> p))"

text \<open>\<open>os.path.exists\<close> on a string.\<close>

definition os_path_exists :: "fs \<Rightarrow> pystr \<Rightarrow> bool" where
  "os_path_exists s p = exists_as_spelled s (stands_for s p)"

text \<open>
  \<open>os.path.exists\<close> on any value: it is \<open>os.stat\<close> with \<open>OSError\<close> and
  \<open>ValueError\<close> turned into \<open>False\<close>. An integer (a \<open>bool\<close> is one) is a file
  descriptor, out of the range of a C \<open>int\<close> it raises \<open>OverflowError\<close>;
  anything that is neither a string nor an integer raises \<open>TypeError\<close>.
\<close>

definition fd_exists :: "fs \<Rightarrow> int \<Rightarrow> exn + bool" where
  "fd_exists s n =
     (if n < - (2 ^ 31) \<or> 2 ^ 31 \<le> n then Inl OverflowError else Inr (n \<in> set (open_fds s)))"

fun exists_value :: "fs \<Rightarrow> json \<Rightarrow> exn + bool" where
  "exists_value s (JStr p) = Inr (os_path_exists s p)"
| "exists_value s (JInt n) = fd_exists s n"
| "exists_value s (JBool b) = fd_exists s (if b then 1 else 0)"
| "exists_value s JNull = Inl TypeError"
| "exists_value s (JFloat r) = Inl TypeError"
| "exists_value s (JArr xs) = Inl TypeError"
| "exists_value s (JObj d) = Inl TypeError"

section \<open>What the environment decides\<close>

text \<open>
  The outcome of writing the temporary file: written in full, \<open>open\<close> raised (the
  file is untouched), or \<open>json.dump\<close> raised after \<open>open\<close> truncated the file
  and left some content in it.
\<close>

datatype write_outcome = Written | OpenFailed | DumpFailed content

text \<open>
  What is outside the server and decides how one request goes: which calls on the
  metadata files fail, for which sources the image library fails, whether
  \<open>socket.gethostbyname\<close> resolves the name it is given (and to what), whether
  \<open>os.makedirs\<close> and \<open>file.save\<close> raise and what \<open>os.stat\<close> sees of
  the saved file, and the two readings of the clock.
\<close>

record env =
  rename_fails :: bool
  write_result :: write_outcome
  replace_fails :: bool
  remove_fails :: bool
  thumb_fails :: "pystr \<Rightarrow> bool"
  gethostbyname :: "pystr \<Rightarrow> exn + pystr"
  makedirs_error :: "exn option"
  file_save :: "exn + stat_result"
  now_timestamp :: rat
  now_date :: pystr

section \<open>The metadata store\<close>

text \<open>\<open>open(METADATA_FILE)\<close> followed by \<open>json.load\<close>.\<close>

definition json_load :: "fs \<Rightarrow> exn + json" where
  "json_load s =
     (case meta s of
        None \<Rightarrow> Inl OSError
      | Some (Json v) \<Rightarrow> Inr v
      | Some (Malformed b) \<Rightarrow> Inl JSONDecodeError
      | Some (Unreadable b) \<Rightarrow> Inl OtherException)"

text \<open>\<open>os.rename(METADATA_FILE, backup_file)\<close>.\<close>

definition rename_to_backup :: "env \<Rightarrow> fs \<Rightarrow> exn + fs" where
  "rename_to_backup e s =
     (if rename_fails e \<or> meta s = None then Inl OSError
      else Inr (s\<lparr>backup := meta s, meta := None\<rparr>))"

definition load_metadata :: "env \<Rightarrow> fs \<Rightarrow> fs \<times> (exn + pydict)" where
  "load_metadata e s =
     (if os_path_exists s METADATA_FILE then
        (case json_load s of
           Inr (JObj d) \<Rightarrow> (s, Inr d)
         | Inr _ \<Rightarrow> (s, Inr [])
         | Inl JSONDecodeError \<Rightarrow>
             (case rename_to_backup e s of
                Inr s' \<Rightarrow> (s', Inr [])
              | Inl _ \<Rightarrow> (s, Inr []))
         | Inl _ \<Rightarrow> (s, Inr []))
      else (s, Inr []))"

text \<open>
  The \<open>try\<close> block of \<open>save_metadata\<close>: the state it leaves, and the exception it
  raised if any. \<open>os.replace\<close> and \<open>os.rename\<close> both move the temporary file
  onto the metadata file.
\<close>

definition write_temp :: "env \<Rightarrow> fs \<Rightarrow> pydict \<Rightarrow> fs \<times> (exn + unit)" where
  "write_temp e s data =
     (case write_result e of
        Written \<Rightarrow> (s\<lparr>tmp := Some (Json (JObj data))\<rparr>, Inr ())
      | OpenFailed \<Rightarrow> (s, Inl OSError)
      | DumpFailed c \<Rightarrow> (s\<lparr>tmp := Some c\<rparr>, Inl OtherException))"

definition os_replace :: "env \<Rightarrow> fs \<Rightarrow> fs \<times> (exn + unit)" where
  "os_replace e s =
     (if replace_fails e \<or> tmp s = None then (s, Inl OSError)
      else (s\<lparr>meta := tmp s, tmp := None\<rparr>, Inr ()))"

definition os_rename :: "env \<Rightarrow> fs \<Rightarrow> fs \<times> (exn + unit)" where
  "os_rename e s =
     (if replace_fails e \<or> tmp s = None then (s, Inl OSError)
      else (s\<lparr>meta := tmp s, tmp := None\<rparr>, Inr ()))"

definition save_body :: "env \<Rightarrow> fs \<Rightarrow> pydict \<Rightarrow> fs \<times> (exn + bool)" where
  "save_body e s data =
     (case write_temp e s data of
        (s1, Inl x) \<Rightarrow> (s1, Inl x)
      | (s1, Inr _) \<Rightarrow>
          (case (if os_path_exists s1 METADATA_FILE then os_replace e s1 else os_rename e s1) of
             (s2, Inl x) \<Rightarrow> (s2, Inl x)
           | (s2, Inr _) \<Rightarrow> (s2, Inr True)))"

text \<open>\<open>os.remove(temp_file)\<close> inside its own \<open>try\<close>: a failure is passed over.\<close>

definition remove_temp :: "env \<Rightarrow> fs \<Rightarrow> fs" where
  "remove_temp e s = (if remove_fails e then s else s\<lparr>tmp := None\<rparr>)"

definition save_metadata :: "env \<Rightarrow> fs \<Rightarrow> pydict \<Rightarrow> fs \<times> (exn + bool)" where
  "save_metadata e s data =
     (case save_body e s data of
        (s1, Inr r) \<Rightarrow> (s1, Inr r)
      | (s1, Inl x) \<Rightarrow>
          (if os_path_exists s1 temp_file then (remove_temp e s1, Inr False)
           else (s1, Inr False)))"

section \<open>Library functions taken as parameters\<close>

text \<open>
  Functions of the Python library and of its packages that the server calls and whose
  code is not part of it. \<open>str.isalnum\<close>, \<open>str.isspace\<close> and \<open>str.lower\<close>
  are written out on ASCII below; beyond ASCII they follow the Unicode tables, which
  are the first three fields. \<open>secure_filename\<close> is werkzeug's function,
  \<open>float_str\<close> is \<open>str\<close> on a float, \<open>strftime\<close> is
  \<open>datetime.fromtimestamp(t).strftime('%Y-%m-%d %H:%M:%S')\<close> (it raises on a
  timestamp out of range), and \<open>fmt2f\<close> formats a number with two decimals.
  \<open>exn_str\<close> is \<open>str\<close> on an exception. \<open>sort_other\<close> is
  \<open>list.sort(key=..., reverse=True)\<close> on a list of dicts of which some key is not
  a string (Python then compares numbers with numbers and lists with lists, and raises
  \<open>TypeError\<close> on other pairs); on string keys the sort is written out below.
\<close>

record lib =
  uni_isalnum :: "nat \<Rightarrow> bool"
  uni_isspace :: "nat \<Rightarrow> bool"
  uni_lower :: "pystr \<Rightarrow> pystr"
  secure_filename :: "pystr \<Rightarrow> pystr"
  float_str :: "rat \<Rightarrow> pystr"
  strftime :: "rat \<Rightarrow> exn + pystr"
  fmt2f :: "rat \<Rightarrow> pystr"
  exn_str :: "exn \<Rightarrow> pystr"
  sort_other :: "json list \<Rightarrow> exn + json list"

definition isalnum :: "lib \<Rightarrow> nat \<Rightarrow> bool" where
  "isalnum l c =
     (if c < 128 then (48 \<le> c \<and> c \<le> 57) \<or> (65 \<le> c \<and> c \<le> 90) \<or> (97 \<le> c \<and> c \<le> 122)
      else uni_isalnum l c)"

definition isspace :: "lib \<Rightarrow> nat \<Rightarrow> bool" where
  "isspace l c =
     (if c < 128 then (9 \<le> c \<and> c \<le> 13) \<or> (28 \<le> c \<and> c \<le> 32)
      else uni_isspace l c)"

definition lower :: "lib \<Rightarrow> pystr \<Rightarrow> pystr" where
  "lower l s =
     (if list_all (\<lambda>c. c < 128) s then map (\<lambda>c. if 65 \<le> c \<and> c \<le> 90 then c + 32 else c) s
      else uni_lower l s)"

section \<open>Helpers of the server\<close>

definition image_extensions :: "pystr list" where
  "image_extensions =
     [S ''jpg'', S ''jpeg'', S ''png'', S ''gif'', S ''bmp'', S ''webp'', S ''tiff'', S ''svg'']"

text \<open>\<open>filename.rsplit('.', 1)[1]\<close>, for a name that contains a dot.\<close>

definition after_last_dot :: "pystr \<Rightarrow> pystr" where
  "after_last_dot filename = rev (takeWhile (\<lambda>c. c \<noteq> 46) (rev filename))"

definition is_image :: "lib \<Rightarrow> pystr \<Rightarrow> bool" where
  "is_image l filename =
     (if filename = [] \<or> 46 \<notin> set filename then False
      else lower l (after_last_dot filename) \<in> set image_extensions)"

text \<open>
  \<open>get_file_size\<close>, on what \<open>os.path.getsize\<close> gives for the path (\<open>None\<close>
  when it raises).
\<close>

fun size_loop :: "lib \<Rightarrow> rat \<Rightarrow> pystr list \<Rightarrow> pystr" where
  "size_loop l sz [] = fmt2f l sz @ S '' PB''"
| "size_loop l sz (u # units) =
     (if sz < 1024 then fmt2f l sz @ S '' '' @ u else size_loop l (sz / 1024) units)"

definition get_file_size :: "lib \<Rightarrow> nat option \<Rightarrow> pystr" where
  "get_file_size l getsize =
     (case getsize of
        None \<Rightarrow> S ''Unknown''
      | Some n \<Rightarrow> size_loop l (of_nat n) [S ''B'', S ''KB'', S ''MB'', S ''GB'', S ''TB''])"

text \<open>
  \<open>create_thumbnail\<close>: the image library decodes the source and writes the JPEG, or
  fails; a failure is caught and \<open>False\<close> is returned.
\<close>

definition create_thumbnail :: "env \<Rightarrow> fs \<Rightarrow> pystr \<Rightarrow> pystr \<Rightarrow> fs \<times> bool" where
  "create_thumbnail e s image_path thumbnail_path =
     (if thumb_fails e image_path then (s, False)
      else (s\<lparr>thumbs := thumbnail_path # thumbs s\<rparr>, True))"

section \<open>Reconciliation\<close>

fun is_substring :: "pystr \<Rightarrow> pystr \<Rightarrow> bool" where
  "is_substring sub [] = (sub = [])"
| "is_substring sub (c # cs) = (take (length sub) (c # cs) = sub \<or> is_substring sub cs)"

text \<open>\<open>'filepath' in data\<close>, on a dict, a string, a list, and on anything else.\<close>

fun contains_filepath :: "json \<Rightarrow> exn + bool" where
  "contains_filepath (JObj d) = Inr (has_key d (S ''filepath''))"
| "contains_filepath (JStr s) = Inr (is_substring (S ''filepath'') s)"
| "contains_filepath (JArr xs) = Inr (JStr (S ''filepath'') \<in> set xs)"
| "contains_filepath JNull = Inl TypeError"
| "contains_filepath (JBool b) = Inl TypeError"
| "contains_filepath (JInt n) = Inl TypeError"
| "contains_filepath (JFloat r) = Inl TypeError"

text \<open>\<open>data['filepath']\<close>.\<close>

fun subscript_filepath :: "json \<Rightarrow> exn + json" where
  "subscript_filepath (JObj d) =
     (case map_of d (S ''filepath'') of Some v \<Rightarrow> Inr v | None \<Rightarrow> Inl KeyError)"
| "subscript_filepath JNull = Inl TypeError"
| "subscript_filepath (JBool b) = Inl TypeError"
| "subscript_filepath (JInt n) = Inl TypeError"
| "subscript_filepath (JFloat r) = Inl TypeError"
| "subscript_filepath (JStr s) = Inl TypeError"
| "subscript_filepath (JArr xs) = Inl TypeError"

text \<open>\<open>'filepath' in data and os.path.exists(data['filepath'])\<close>.\<close>

definition file_still_exists :: "fs \<Rightarrow> json \<Rightarrow> exn + bool" where
  "file_still_exists s data =
     (case contains_filepath data of
        Inl x \<Rightarrow> Inl x
      | Inr False \<Rightarrow> Inr False
      | Inr True \<Rightarrow>
          (case subscript_filepath data of
             Inl x \<Rightarrow> Inl x
           | Inr v \<Rightarrow> exists_value s v))"

text \<open>The first loop of \<open>scan_all_uploads\<close>, over \<open>metadata.items()\<close>.\<close>

fun keep_existing :: "fs \<Rightarrow> pydict \<Rightarrow> pydict \<Rightarrow> exn + pydict" where
  "keep_existing s [] all_files = Inr all_files"
| "keep_existing s ((file_id, data) # rest) all_files =
     (case file_still_exists s data of
        Inl x \<Rightarrow> Inl x
      | Inr True \<Rightarrow> keep_existing s rest (AList.update file_id data all_files)
      | Inr False \<Rightarrow> keep_existing s rest all_files)"

definition make_file_id :: "lib \<Rightarrow> pystr \<Rightarrow> pystr \<Rightarrow> rat \<Rightarrow> pystr" where
  "make_file_id l folder_name filename t =
     folder_name @ S ''_'' @ filename @ S ''_'' @ float_str l t"

definition thumbnail_name :: "pystr \<Rightarrow> pystr \<Rightarrow> pystr" where
  "thumbnail_name folder_name filename = folder_name @ S ''_'' @ filename"

definition discovered_record ::
  "lib \<Rightarrow> pystr \<Rightarrow> pystr \<Rightarrow> pystr \<Rightarrow> pystr \<Rightarrow> stat_result \<Rightarrow> json" where
  "discovered_record l folder_name filename filepath date st =
     JObj
      [(S ''folder'', JStr folder_name),
       (S ''filename'', JStr filename),
       (S ''description'', JStr (S ''Auto-detected file'')),
       (S ''upload_date'', JStr date),
       (S ''filepath'', JStr filepath),
       (S ''thumbnail'',
          if is_image l filename then JStr (thumbnail_name folder_name filename) else JNull),
       (S ''uploaded_by'', JStr (S ''Unknown'')),
       (S ''system_ip'', JStr (S ''Unknown'')),
       (S ''file_size'', JStr (get_file_size l (Some (st_size st)))),
       (S ''is_image'', JBool (is_image l filename))]"

text \<open>
  The body of the innermost loop, for one name of a folder. An exception inside the
  \<open>try\<close> (from \<open>os.stat\<close> or from \<open>strftime\<close>) skips the file; a thumbnail
  written before the exception stays.
\<close>

definition scan_file ::
  "lib \<Rightarrow> env \<Rightarrow> pystr \<Rightarrow> pystr \<Rightarrow> pystr \<Rightarrow> entry \<Rightarrow> fs \<times> pydict \<Rightarrow> fs \<times> pydict" where
  "scan_file l e folder_name folder_path filename en sa =
     (case en of
        NotFile \<Rightarrow> sa
      | DanglingEntry \<Rightarrow> sa
      | RegularFile None \<Rightarrow> sa
      | RegularFile (Some st) \<Rightarrow>
          (let s = fst sa; all_files = snd sa;
               filepath = join folder_path filename;
               file_id = make_file_id l folder_name filename (st_mtime st)
           in if has_key all_files file_id then sa
              else
                (let thumbnail_path = join THUMBNAIL_DIR (thumbnail_name folder_name filename);
                     s' = (if is_image l filename \<and> \<not> os_path_exists s thumbnail_path
                           then fst (create_thumbnail e s filepath thumbnail_path) else s)
                 in case strftime l (st_mtime st) of
                      Inl x \<Rightarrow> (s', all_files)
                    | Inr date \<Rightarrow>
                        (s', AList.update file_id
                               (discovered_record l folder_name filename filepath date st)
                               all_files))))"

fun scan_files ::
  "lib \<Rightarrow> env \<Rightarrow> pystr \<Rightarrow> pystr \<Rightarrow> (pystr \<times> entry) list \<Rightarrow> fs \<times> pydict \<Rightarrow> fs \<times> pydict" where
  "scan_files l e folder_name folder_path [] sa = sa"
| "scan_files l e folder_name folder_path ((filename, en) # rest) sa =
     scan_files l e folder_name folder_path rest
       (scan_file l e folder_name folder_path filename en sa)"

text \<open>
  The loop over \<open>os.listdir(UPLOAD_BASE)\<close>. \<open>os.listdir(folder_path)\<close> is outside the
  \<open>try\<close>: when it raises, the scan raises.
\<close>

fun scan_folders ::
  "lib \<Rightarrow> env \<Rightarrow> (pystr \<times> folder) list \<Rightarrow> fs \<times> pydict \<Rightarrow> fs \<times> (exn + pydict)" where
  "scan_folders l e [] sa = (fst sa, Inr (snd sa))"
| "scan_folders l e ((folder_name, fo) # rest) sa =
     (case fo of
        NotDir \<Rightarrow> scan_folders l e rest sa
      | DanglingFolder \<Rightarrow> scan_folders l e rest sa
      | FolderUnlistable \<Rightarrow> (fst sa, Inl OSError)
      | Folder es \<Rightarrow>
          scan_folders l e rest
            (scan_files l e folder_name (join UPLOAD_BASE folder_name) es sa))"

definition scan_tree :: "lib \<Rightarrow> env \<Rightarrow> fs \<times> pydict \<Rightarrow> fs \<times> (exn + pydict)" where
  "scan_tree l e sa =
     (if os_path_exists (fst sa) UPLOAD_BASE then
        (case uploads (fst sa) of
           Listing fl \<Rightarrow> scan_folders l e fl sa
         | Unlistable \<Rightarrow> (fst sa, Inl OSError)
         | NoDir \<Rightarrow> (fst sa, Inl OSError))
      else (fst sa, Inr (snd sa)))"

definition scan_all_uploads :: "lib \<Rightarrow> env \<Rightarrow> fs \<Rightarrow> fs \<times> (exn + pydict)" where
  "scan_all_uploads l e s =
     (case load_metadata e s of
        (s1, Inl x) \<Rightarrow> (s1, Inl x)
      | (s1, Inr metadata) \<Rightarrow>
          (case keep_existing s1 metadata [] of
             Inl x \<Rightarrow> (s1, Inl x)
           | Inr kept \<Rightarrow>
               (case scan_tree l e (s1, kept) of
                  (s2, Inl x) \<Rightarrow> (s2, Inl x)
                | (s2, Inr all_files) \<Rightarrow>
                    (fst (save_metadata e s2 all_files), Inr all_files))))"

text \<open>\<open>str\<close> on a natural number.\<close>

fun show_nat :: "nat \<Rightarrow> pystr" where
  "show_nat n = (if n < 10 then [48 + n] else show_nat (n div 10) @ [48 + n mod 10])"

declare show_nat.simps [simp del]

section \<open>Auxiliary definitions\<close>

text \<open>
  What the scan of the upload tree computes, written without the state: the
  identifier and the record an entry of a folder gives (if any), these over a folder and
  over the tree, in the order of the scan, and their insertion into the mapping under
  \<open>if file_id not in all_files\<close>.
\<close>

definition discovered :: "lib \<Rightarrow> pystr \<Rightarrow> pystr \<Rightarrow> pystr \<Rightarrow> entry \<Rightarrow> (pystr \<times> json) option" where
  "discovered l folder_name folder_path filename en =
     (case en of
        RegularFile (Some st) \<Rightarrow>
          (case strftime l (st_mtime st) of
             Inr date \<Rightarrow>
               Some (make_file_id l folder_name filename (st_mtime st),
                     discovered_record l folder_name filename (join folder_path filename) date st)
           | Inl x \<Rightarrow> None)
      | _ \<Rightarrow> None)"

definition add_all :: "pydict \<Rightarrow> pydict \<Rightarrow> pydict" where
  "add_all ds af = foldl (\<lambda>af (k, r). if has_key af k then af else af @ [(k, r)]) af ds"

definition files_discovered :: "lib \<Rightarrow> pystr \<Rightarrow> pystr \<Rightarrow> (pystr \<times> entry) list \<Rightarrow> pydict" where
  "files_discovered l folder_name folder_path es =
     List.map_filter (\<lambda>(filename, en). discovered l folder_name folder_path filename en) es"

definition tree_discovered :: "lib \<Rightarrow> (pystr \<times> folder) list \<Rightarrow> pydict" where
  "tree_discovered l fl =
     concat (map (\<lambda>(folder_name, fo).
       case fo of Folder es \<Rightarrow> files_discovered l folder_name (join UPLOAD_BASE folder_name) es
                | _ \<Rightarrow> []) fl)"

definition all_listable :: "(pystr \<times> folder) list \<Rightarrow> bool" where
  "all_listable fl = list_all (\<lambda>(folder_name, fo). fo \<noteq> FolderUnlistable) fl"

text \<open>The mapping after the scan of the tree, as a function of the tree alone.\<close>

definition tree_result :: "lib \<Rightarrow> tree \<Rightarrow> pydict \<Rightarrow> exn + pydict" where
  "tree_result l u af =
     (case u of
        NoDir \<Rightarrow> Inr af
      | Unlistable \<Rightarrow> Inl OSError
      | Listing fl \<Rightarrow>
          if all_listable fl then Inr (add_all (tree_discovered l fl) af) else Inl OSError)"

text \<open>Two states that differ in the thumbnails written only.\<close>

definition thumbs_only :: "fs \<Rightarrow> fs \<Rightarrow> bool" where
  "thumbs_only s s' = (s' = s\<lparr>thumbs := thumbs s'\<rparr>)"






section \<open>Concrete states for the examples\<close>

definition env0 :: env where
  "env0 = \<lparr>rename_fails = False, write_result = Written, replace_fails = False,
     remove_fails = False, thumb_fails = (\<lambda>p. False),
     gethostbyname = (\<lambda>h. Inl OSError), makedirs_error = None,
     file_save = Inr \<lparr>st_mtime = 5, st_size = 0\<rparr>,
     now_timestamp = 5, now_date = S ''1970-01-01 00:00:05''\<rparr>"

definition fs0 :: fs where
  "fs0 = \<lparr>meta = None, tmp = None, backup = None, uploads = Listing [], thumbs = [],
     links = [], others = [], open_fds = [0, 1, 2]\<rparr>"

text \<open>
  An instance of the library parameters for the examples. It agrees with the library on
  the values the examples use: ASCII names that \<open>secure_filename\<close> leaves as they
  are, whole numbers, and timestamps of the first seconds of 1970 (in UTC).
\<close>

definition lib0 :: lib where
  "lib0 =
     \<lparr>uni_isalnum = (\<lambda>c. False), uni_isspace = (\<lambda>c. False), uni_lower = (\<lambda>s. s),
      secure_filename = (\<lambda>s. s),
      float_str = (\<lambda>t. show_nat (nat \<lfloor>t\<rfloor>) @ S ''.0''),
      strftime = (\<lambda>t. Inr (S ''1970-01-01 00:00:0'' @ show_nat (nat \<lfloor>t\<rfloor>))),
      fmt2f = (\<lambda>x. show_nat (nat \<lfloor>x\<rfloor>) @ S ''.00''),
      exn_str = (\<lambda>x. []), sort_other = (\<lambda>xs. Inl TypeError)\<rparr>"

text \<open>A record whose file is gone.\<close>

definition stale_record :: json where
  "stale_record = JObj [(S ''filepath'', JStr (S ''uploads/a/gone.txt''))]"

definition stale_id :: pystr where
  "stale_id = S ''a_gone.txt_1.0''"

definition fs_stale :: fs where
  "fs_stale = fs0\<lparr>meta := Some (Json (JObj [(S ''a_gone.txt_1.0'', stale_record)]))\<rparr>"

text \<open>
  One file \<open>uploads/a/f.txt\<close> with modification time \<open>t\<close>, and the record the
  scan makes of it.
\<close>

definition tree_at :: "rat \<Rightarrow> tree" where
  "tree_at t =
     Listing [(S ''a'', Folder [(S ''f.txt'', RegularFile (Some \<lparr>st_mtime = t, st_size = 0\<rparr>))])]"

definition record_at :: "rat \<Rightarrow> json" where
  "record_at t =
     discovered_record lib0 (S ''a'') (S ''f.txt'') (S ''uploads/a/f.txt'')
       (S ''1970-01-01 00:00:0'' @ show_nat (nat \<lfloor>t\<rfloor>)) \<lparr>st_mtime = t, st_size = 0\<rparr>"

definition fs_before :: fs where
  "fs_before = fs0\<lparr>uploads := tree_at 1\<rparr>"

definition fs_known :: fs where
  "fs_known = fs0\<lparr>meta := Some (Json (JObj [(S ''a_f.txt_1.0'', record_at 1)])),
                  uploads := tree_at 1\<rparr>"



text \<open>
  A record that names the temporary file by another spelling, which \<open>links\<close> maps
  to the path itself.
\<close>

definition fs_alias :: fs where
  "fs_alias =
     fs0\<lparr>meta := Some (Json (JObj [(S ''x'', JObj [(S ''filepath'', JStr (S ''./photo_metadata.json.tmp''))])])),
         tmp := Some (Json JNull),
         links := [(S ''./photo_metadata.json.tmp'', S ''photo_metadata.json.tmp'')]\<rparr>"

text \<open>Two files of different folders with the same identifier.\<close>

definition tree_collision :: tree where
  "tree_collision =
     Listing [(S ''a'', Folder [(S ''b_c.txt'', RegularFile (Some \<lparr>st_mtime = 2, st_size = 0\<rparr>))]),
              (S ''a_b'', Folder [(S ''c.txt'', RegularFile (Some \<lparr>st_mtime = 2, st_size = 0\<rparr>))])]"

section \<open>Properties of the metadata store\<close>

lemma store_paths_distinct [simp]:
  "METADATA_FILE \<noteq> temp_file" "METADATA_FILE \<noteq> backup_file" "temp_file \<noteq> backup_file"
  "temp_file \<noteq> METADATA_FILE" "backup_file \<noteq> METADATA_FILE" "backup_file \<noteq> temp_file"
  by (simp_all add: temp_file_def backup_file_def S_def)

lemma stands_for_store [simp]:
  "stands_for s METADATA_FILE = METADATA_FILE"
  "stands_for s temp_file = temp_file"
  "stands_for s backup_file = backup_file"
  "stands_for s UPLOAD_BASE = UPLOAD_BASE"
  by (simp_all add: stands_for_def)

lemma upload_base_not_store [simp]:
  "UPLOAD_BASE \<noteq> METADATA_FILE" "UPLOAD_BASE \<noteq> temp_file" "UPLOAD_BASE \<noteq> backup_file"
  by (simp_all add: UPLOAD_BASE_def METADATA_FILE_def temp_file_def backup_file_def S_def)

lemma exists_store [simp]:
  "os_path_exists s METADATA_FILE = (meta s \<noteq> None)"
  "os_path_exists s temp_file = (tmp s \<noteq> None)"
  "os_path_exists s backup_file = (backup s \<noteq> None)"
  "os_path_exists s UPLOAD_BASE = (uploads s \<noteq> NoDir)"
  by (simp_all add: os_path_exists_def exists_as_spelled_def)

lemma save_ok:
  "write_result e = Written \<Longrightarrow> \<not> replace_fails e \<Longrightarrow>
   save_metadata e s data = (s\<lparr>tmp := None, meta := Some (Json (JObj data))\<rparr>, Inr True)"
  by (simp add: save_metadata_def save_body_def write_temp_def os_replace_def os_rename_def)




text \<open>
  C9. When the metadata file holds valid JSON whose top-level value is not an object,
  \<open>load_metadata\<close> returns the empty mapping and changes nothing on disk: no backup
  is made, and the next successful save replaces the file by the new mapping while the
  backup path still holds what it held. The backup path changes only when
  \<open>json.load\<close> raised \<open>JSONDecodeError\<close>.
\<close>

theorem load_metadata_non_dict:
  "(meta s = Some (Json v) \<and> (\<forall>d. v \<noteq> JObj d) \<longrightarrow>
      load_metadata e s = (s, Inr []) \<and>
      (write_result e' = Written \<and> \<not> replace_fails e' \<longrightarrow>
         meta (fst (save_metadata e' (fst (load_metadata e s)) data)) = Some (Json (JObj data)) \<and>
         backup (fst (save_metadata e' (fst (load_metadata e s)) data)) = backup s)) \<and>
   (backup (fst (load_metadata e s)) \<noteq> backup s \<longrightarrow> (\<exists>b. meta s = Some (Malformed b)))"
  by (auto simp: load_metadata_def json_load_def rename_to_backup_def save_ok
      split: option.splits content.splits json.splits sum.splits exn.splits)

theorem load_metadata_non_dict_witness:
  "meta (fs0\<lparr>meta := Some (Json (JArr [JInt 1]))\<rparr>) = Some (Json (JArr [JInt 1])) \<and>
   load_metadata env0 (fs0\<lparr>meta := Some (Json (JArr [JInt 1]))\<rparr>) =
     (fs0\<lparr>meta := Some (Json (JArr [JInt 1]))\<rparr>, Inr []) \<and>
   meta (fst (save_metadata env0
     (fst (load_metadata env0 (fs0\<lparr>meta := Some (Json (JArr [JInt 1]))\<rparr>))) [])) =
     Some (Json (JObj [])) \<and>
   backup (fst (save_metadata env0
     (fst (load_metadata env0 (fs0\<lparr>meta := Some (Json (JArr [JInt 1]))\<rparr>))) [])) = None"
proof -
  have w: "write_result env0 = Written \<and> \<not> replace_fails env0"
    by (simp add: env0_def)
  have b: "backup (fs0\<lparr>meta := Some (Json (JArr [JInt 1]))\<rparr>) = None"
    by (simp add: fs0_def)
  show ?thesis
    using load_metadata_non_dict [of "fs0\<lparr>meta := Some (Json (JArr [JInt 1]))\<rparr>"
      "JArr [JInt 1]" env0 env0 "[]"] w b
    by auto
qed

section \<open>Properties of reconciliation\<close>

lemma update_absent: "k \<notin> fst ` set al \<Longrightarrow> AList.update k v al = al @ [(k, v)]"
  by (induction al) auto

lemma set_update_subset: "set (AList.update k v al) \<subseteq> insert (k, v) (set al)"
  by (induction al) auto

lemma keep_existing_values:
  "keep_existing s m acc = Inr r \<Longrightarrow> (k, d) \<in> set r \<Longrightarrow>
   (k, d) \<in> set acc \<or> ((k, d) \<in> set m \<and> file_still_exists s d = Inr True)"
proof (induction m arbitrary: acc)
  case Nil
  then show ?case by simp
next
  case (Cons a m)
  obtain k' d' where a: "a = (k', d')" by (cases a)
  show ?case
  proof (cases "file_still_exists s d'")
    case (Inl x)
    with Cons.prems a show ?thesis by simp
  next
    case (Inr b)
    show ?thesis
    proof (cases b)
      case True
      with Inr Cons.prems a have "keep_existing s m (AList.update k' d' acc) = Inr r" by simp
      from Cons.IH [OF this Cons.prems(2)] set_update_subset [of k' d' acc] a Inr True
      show ?thesis by auto
    next
      case False
      with Inr Cons.prems a have "keep_existing s m acc = Inr r" by simp
      from Cons.IH [OF this Cons.prems(2)] show ?thesis by auto
    qed
  qed
qed

lemma scan_file_snd:
  "snd (scan_file l e fn fp filename en (s, af)) =
     (case discovered l fn fp filename en of
        Some (k, r) \<Rightarrow> if has_key af k then af else af @ [(k, r)]
      | None \<Rightarrow> af)"
  by (auto simp: scan_file_def discovered_def Let_def has_key_def update_absent
      split: entry.splits option.splits sum.splits)

lemma add_all_simps [simp]:
  "add_all [] af = af"
  "add_all ((k, r) # ds) af = add_all ds (if has_key af k then af else af @ [(k, r)])"
  by (simp_all add: add_all_def)

lemma add_all_append: "add_all (xs @ ys) af = add_all ys (add_all xs af)"
  by (simp add: add_all_def)

lemma add_all_mono: "set af \<subseteq> set (add_all ds af)"
proof (induction ds arbitrary: af)
  case Nil
  show ?case by simp
next
  case (Cons a ds)
  obtain k r where a: "a = (k, r)" by (cases a)
  have "set af \<subseteq> set (if has_key af k then af else af @ [(k, r)])" by auto
  also have "\<dots> \<subseteq> set (add_all ds (if has_key af k then af else af @ [(k, r)]))"
    by (rule Cons)
  finally show ?case using a by simp
qed

lemma add_all_values: "set (add_all ds af) \<subseteq> set af \<union> set ds"
proof (induction ds arbitrary: af)
  case Nil
  show ?case by simp
next
  case (Cons a ds)
  obtain k r where a: "a = (k, r)" by (cases a)
  show ?case using Cons [of "if has_key af k then af else af @ [(k, r)]"] a
    by (auto split: if_splits)
qed

lemma add_all_keys: "fst ` set ds \<subseteq> fst ` set (add_all ds af)"
proof (induction ds arbitrary: af)
  case Nil
  show ?case by simp
next
  case (Cons a ds)
  obtain k r where a: "a = (k, r)" by (cases a)
  have "k \<in> fst ` set (if has_key af k then af else af @ [(k, r)])"
    by (auto simp: has_key_def)
  then have "k \<in> fst ` set (add_all ds (if has_key af k then af else af @ [(k, r)]))"
    using add_all_mono by (metis (no_types, lifting) image_mono subsetD)
  with Cons [of "if has_key af k then af else af @ [(k, r)]"] a show ?case
    by auto
qed


lemma add_all_distinct: "distinct (map fst af) \<Longrightarrow> distinct (map fst (add_all ds af))"
proof (induction ds arbitrary: af)
  case Nil
  then show ?case by simp
next
  case (Cons a ds)
  obtain k r where a: "a = (k, r)" by (cases a)
  have "distinct (map fst (if has_key af k then af else af @ [(k, r)]))"
    using Cons.prems by (auto simp: has_key_def)
  from Cons.IH [OF this] a show ?case by simp
qed


lemma scan_files_snd:
  "snd (scan_files l e fn fp es sa) = add_all (files_discovered l fn fp es) (snd sa)"
proof (induction es arbitrary: sa)
  case Nil
  show ?case by (simp add: files_discovered_def)
next
  case (Cons a es)
  obtain filename en where a: "a = (filename, en)" by (cases a)
  obtain s af where sa: "sa = (s, af)" by (cases sa)
  show ?case
    using Cons [of "scan_file l e fn fp filename en sa"] a sa
    by (simp add: scan_file_snd files_discovered_def split: option.splits)
qed

lemma scan_folders_snd:
  "snd (scan_folders l e fl sa) =
     (if all_listable fl then Inr (add_all (tree_discovered l fl) (snd sa)) else Inl OSError)"
proof (induction fl arbitrary: sa)
  case Nil
  show ?case by (simp add: all_listable_def tree_discovered_def)
next
  case (Cons a fl)
  obtain fn fo where a: "a = (fn, fo)" by (cases a)
  show ?case
  proof (cases fo)
    case (Folder es)
    with Cons [of "scan_files l e fn (join UPLOAD_BASE fn) es sa"] a show ?thesis
      by (simp add: all_listable_def tree_discovered_def scan_files_snd add_all_append)
  next
    case FolderUnlistable
    with a show ?thesis by (simp add: all_listable_def)
  next
    case NotDir
    with Cons [of sa] a show ?thesis by (simp add: all_listable_def tree_discovered_def)
  next
    case DanglingFolder
    with Cons [of sa] a show ?thesis by (simp add: all_listable_def tree_discovered_def)
  qed
qed

lemma UPLOAD_BASE_eq: "UPLOAD_BASE = [117, 112, 108, 111, 97, 100, 115]"
  by (simp add: UPLOAD_BASE_def S_def)

lemma METADATA_FILE_hd: "METADATA_FILE \<noteq> [] \<and> hd METADATA_FILE = 112"
  by (simp add: METADATA_FILE_def S_def)

lemma join_upload_hd:
  "join UPLOAD_BASE f \<noteq> [] \<and> (hd (join UPLOAD_BASE f) = 47 \<or> hd (join UPLOAD_BASE f) = 117)"
  by (auto simp: join_def UPLOAD_BASE_eq)

lemma join_hd:
  "a \<noteq> [] \<Longrightarrow> join a n \<noteq> [] \<and> (hd (join a n) = 47 \<or> hd (join a n) = hd a)"
  by (auto simp: join_def)

lemma tree_path_hd:
  "join (join UPLOAD_BASE f) n \<noteq> [] \<and>
   (hd (join (join UPLOAD_BASE f) n) = 47 \<or> hd (join (join UPLOAD_BASE f) n) = 117)"
  using join_upload_hd [of f] join_hd [of "join UPLOAD_BASE f" n] by auto

lemma tree_path_not_store:
  "join (join UPLOAD_BASE f) n \<noteq> METADATA_FILE"
  "join (join UPLOAD_BASE f) n \<noteq> temp_file"
  "join (join UPLOAD_BASE f) n \<noteq> backup_file"
  using tree_path_hd [of f n] METADATA_FILE_hd
  by (auto simp: temp_file_def backup_file_def)

lemma exists_in_tree:
  assumes "uploads s = Listing fl" "(fn, Folder es) \<in> set fl" "(filename, en) \<in> set es"
      and "en \<noteq> DanglingEntry"
  shows "os_path_exists s (join (join UPLOAD_BASE fn) filename)"
proof -
  have "in_uploads (uploads s) (join (join UPLOAD_BASE fn) filename)"
    using assms by (auto simp: list_ex_iff intro!: bexI [of _ "(fn, Folder es)"] bexI [of _ "(filename, en)"])
  with assms(1) show ?thesis
    by (simp add: os_path_exists_def stands_for_def exists_as_spelled_def tree_path_not_store)
qed

lemma discovered_record_exists:
  "file_still_exists s (discovered_record l fn filename p date st) = Inr (os_path_exists s p)"
  by (simp add: file_still_exists_def discovered_record_def has_key_def S_def)

lemma tree_discovered_path:
  assumes "(k, r) \<in> set (tree_discovered l fl)"
  shows "\<exists>fn es filename st date.
           (fn, Folder es) \<in> set fl \<and> (filename, RegularFile (Some st)) \<in> set es \<and>
           strftime l (st_mtime st) = Inr date \<and>
           k = make_file_id l fn filename (st_mtime st) \<and>
           r = discovered_record l fn filename (join (join UPLOAD_BASE fn) filename) date st"
proof -
  from assms obtain fn fo where f: "(fn, fo) \<in> set fl"
    and kr: "(k, r) \<in> set (case fo of Folder es \<Rightarrow> files_discovered l fn (join UPLOAD_BASE fn) es | _ \<Rightarrow> [])"
    by (auto simp: tree_discovered_def)
  from kr obtain es where fo: "fo = Folder es"
    and kr': "(k, r) \<in> set (files_discovered l fn (join UPLOAD_BASE fn) es)"
    by (cases fo) auto
  from kr' obtain filename en where en: "(filename, en) \<in> set es"
    and d: "discovered l fn (join UPLOAD_BASE fn) filename en = Some (k, r)"
    by (auto simp: files_discovered_def List.map_filter_def)
  from d obtain st date where "en = RegularFile (Some st)" "strftime l (st_mtime st) = Inr date"
    "k = make_file_id l fn filename (st_mtime st)"
    "r = discovered_record l fn filename (join (join UPLOAD_BASE fn) filename) date st"
    by (auto simp: discovered_def split: entry.splits option.splits sum.splits)
  with f fo en show ?thesis by blast
qed

lemma tree_discovered_exists:
  assumes "uploads s = Listing fl" "(k, r) \<in> set (tree_discovered l fl)"
  shows "file_still_exists s r = Inr True"
proof -
  from tree_discovered_path [OF assms(2)] obtain fn es filename st date where
    "(fn, Folder es) \<in> set fl" "(filename, RegularFile (Some st)) \<in> set es"
    "r = discovered_record l fn filename (join (join UPLOAD_BASE fn) filename) date st"
    by blast
  with exists_in_tree [OF assms(1), of fn es filename "RegularFile (Some st)"] show ?thesis
    by (simp add: discovered_record_exists)
qed

lemma scan_tree_snd:
  "snd (scan_tree l e (s, af)) =
     (case uploads s of
        NoDir \<Rightarrow> Inr af
      | Unlistable \<Rightarrow> Inl OSError
      | Listing fl \<Rightarrow>
          if all_listable fl then Inr (add_all (tree_discovered l fl) af) else Inl OSError)"
  by (simp add: scan_tree_def scan_folders_snd split: tree.splits)

lemma scan_all_uploads_snd:
  "snd (scan_all_uploads l e s) =
     (case load_metadata e s of
        (s1, Inl x) \<Rightarrow> Inl x
      | (s1, Inr metadata) \<Rightarrow>
          (case keep_existing s1 metadata [] of
             Inl x \<Rightarrow> Inl x
           | Inr kept \<Rightarrow> snd (scan_tree l e (s1, kept))))"
  by (simp add: scan_all_uploads_def split: prod.splits sum.splits)

lemma scan_tree_result: "snd (scan_tree l e (s, af)) = tree_result l (uploads s) af"
  by (simp add: scan_tree_snd tree_result_def)


lemma tree_result_values:
  "tree_result l u af = Inr a \<Longrightarrow> (k, d) \<in> set a \<Longrightarrow>
   (k, d) \<in> set af \<or> (\<exists>fl. u = Listing fl \<and> (k, d) \<in> set (tree_discovered l fl))"
  using add_all_values by (fastforce simp: tree_result_def split: tree.splits if_splits)

lemma tree_result_mono: "tree_result l u af = Inr a \<Longrightarrow> set af \<subseteq> set a"
  using add_all_mono by (fastforce simp: tree_result_def split: tree.splits if_splits)

lemma tree_result_distinct:
  "tree_result l u af = Inr a \<Longrightarrow> distinct (map fst af) \<Longrightarrow> distinct (map fst a)"
  by (auto simp: tree_result_def add_all_distinct split: tree.splits if_splits)


lemma keep_existing_distinct:
  "keep_existing s m acc = Inr r \<Longrightarrow> distinct (map fst acc) \<Longrightarrow> distinct (map fst r)"
proof (induction m arbitrary: acc)
  case Nil
  then show ?case by simp
next
  case (Cons a m)
  obtain k d where a: "a = (k, d)" by (cases a)
  from Cons.prems(2) have "distinct (map fst (AList.update k d acc))"
    by (rule AList.distinct_update)
  with Cons a show ?case
    by (auto split: sum.splits bool.splits)
qed


lemma keep_existing_kept:
  "keep_existing s m acc = Inr r \<Longrightarrow> (k, d) \<in> set acc \<Longrightarrow> k \<notin> fst ` set m \<Longrightarrow>
   (k, d) \<in> set r"
proof (induction m arbitrary: acc)
  case Nil
  then show ?case by simp
next
  case (Cons a m)
  obtain k' d' where a: "a = (k', d')" by (cases a)
  from Cons.prems a have ne: "k' \<noteq> k" and km: "k \<notin> fst ` set m" by auto
  from Cons.prems(2) ne have "(k, d) \<in> set (AList.update k' d' acc)"
    by (induction acc) auto
  with Cons.IH [OF _ _ km] Cons.prems a show ?case
    by (auto split: sum.splits bool.splits)
qed

lemma keep_existing_member:
  "keep_existing s m acc = Inr r \<Longrightarrow> distinct (map fst m) \<Longrightarrow> (k, d) \<in> set m \<Longrightarrow>
   file_still_exists s d = Inr True \<Longrightarrow> (k, d) \<in> set r"
proof (induction m arbitrary: acc)
  case Nil
  then show ?case by simp
next
  case (Cons a m)
  obtain k' d' where a: "a = (k', d')" by (cases a)
  show ?case
  proof (cases "(k, d) = (k', d')")
    case True
    have in_upd: "(k, d) \<in> set (AList.update k d acc)"
      by (induction acc) auto
    from Cons.prems(2) a True have "k \<notin> fst ` set m" by auto
    with keep_existing_kept [of s m "AList.update k d acc" r k d] in_upd Cons.prems a True
    show ?thesis by simp
  next
    case False
    with Cons.prems a have "(k, d) \<in> set m" by auto
    with Cons.IH [of _ ] Cons.prems a show ?thesis
      by (auto split: sum.splits bool.splits)
  qed
qed

lemma thumbs_only_refl [simp]: "thumbs_only s s"
  by (simp add: thumbs_only_def)

lemma thumbs_only_upd [simp]: "thumbs_only s (s\<lparr>thumbs := t\<rparr>)"
  by (simp add: thumbs_only_def)



lemma load_metadata_cases:
  "(\<exists>m. meta s = Some (Json (JObj m)) \<and> load_metadata e s = (s, Inr m)) \<or>
   ((\<forall>m. meta s \<noteq> Some (Json (JObj m))) \<and>
    (\<exists>s1. load_metadata e s = (s1, Inr []) \<and> uploads s1 = uploads s \<and>
          (\<forall>m. meta s1 \<noteq> Some (Json (JObj m)))))"
proof (cases "meta s")
  case None
  then show ?thesis by (simp add: load_metadata_def)
next
  case (Some c)
  show ?thesis
  proof (cases c)
    case (Json v)
    with Some show ?thesis
      by (cases v) (simp_all add: load_metadata_def json_load_def)
  next
    case (Malformed b)
    with Some show ?thesis
      by (simp add: load_metadata_def json_load_def rename_to_backup_def)
  next
    case (Unreadable b)
    with Some show ?thesis
      by (simp add: load_metadata_def json_load_def)
  qed
qed







lemma loaded_cases:
  assumes "snd (load_metadata e s) = Inr metadata"
  shows "load_metadata e s = (s, Inr metadata) \<or>
         (metadata = [] \<and> uploads (fst (load_metadata e s)) = uploads s)"
  using load_metadata_cases [of s e] assms by auto

lemma scan_parts:
  assumes "snd (load_metadata e s) = Inr metadata"
      and "snd (scan_all_uploads l e s) = Inr a"
  obtains kept where "keep_existing (fst (load_metadata e s)) metadata [] = Inr kept"
      and "tree_result l (uploads s) kept = Inr a"
proof -
  obtain s1 where ld: "load_metadata e s = (s1, Inr metadata)"
    using assms(1) by (cases "load_metadata e s") simp
  from assms(2) ld obtain kept where kept: "keep_existing s1 metadata [] = Inr kept"
    and tree: "snd (scan_tree l e (s1, kept)) = Inr a"
    by (auto simp: scan_all_uploads_snd split: sum.splits)
  from loaded_cases [OF assms(1)] ld have "uploads s1 = uploads s" by auto
  with tree have "tree_result l (uploads s) kept = Inr a"
    by (simp add: scan_tree_result)
  with kept ld that show ?thesis by simp
qed
















lemma map_of_add_all:
  "map_of (add_all ds af) k = (case map_of af k of Some v \<Rightarrow> Some v | None \<Rightarrow> map_of ds k)"
proof (induction ds arbitrary: af)
  case Nil
  show ?case by (simp split: option.splits)
next
  case (Cons a ds)
  obtain k' r where a: "a = (k', r)" by (cases a)
  have h: "has_key af k' = (map_of af k' \<noteq> None)"
    by (simp add: has_key_def map_of_eq_None_iff)
  show ?case
    using Cons [of "if has_key af k' then af else af @ [(k', r)]"] a h
    by (auto simp: map_add_def split: option.splits)
qed

lemma keep_existing_keys:
  "keep_existing s m acc = Inr r \<Longrightarrow> fst ` set r \<subseteq> fst ` set acc \<union> fst ` set m"
  using keep_existing_values [of s m acc r] by force

lemma scan_distinct:
  assumes "snd (load_metadata e s) = Inr metadata" and "snd (scan_all_uploads l e s) = Inr a"
  shows "distinct (map fst a)"
proof -
  from scan_parts [OF assms] obtain kept where
    kept: "keep_existing (fst (load_metadata e s)) metadata [] = Inr kept"
    and tr: "tree_result l (uploads s) kept = Inr a" by blast
  from tree_result_distinct [OF tr] keep_existing_distinct [OF kept] show ?thesis by simp
qed

text \<open>
  C1. A record of the loaded metadata whose \<open>filepath\<close> is missing or does not exist
  at the start of a reconciliation pass is not a value of the mapping the pass returns.
  (Its identifier is free again: a file found on disk may be registered under it, with
  a record of its own.)
\<close>

theorem stale_record_removed:
  assumes "snd (load_metadata e s) = Inr metadata"
      and "(file_id, data) \<in> set metadata"
      and "file_still_exists s data = Inr False"
      and "snd (scan_all_uploads l e s) = Inr all_files"
    shows "data \<notin> snd ` set all_files"
proof
  assume "data \<in> snd ` set all_files"
  then obtain k where k: "(k, data) \<in> set all_files" by auto
  from scan_parts [OF assms(1) assms(4)] obtain kept where
    kept: "keep_existing (fst (load_metadata e s)) metadata [] = Inr kept"
    and tr: "tree_result l (uploads s) kept = Inr all_files" by blast
  from assms(2) loaded_cases [OF assms(1)] have s1: "fst (load_metadata e s) = s" by auto
  from tree_result_values [OF tr k] show False
  proof
    assume "(k, data) \<in> set kept"
    from keep_existing_values [OF kept this] s1 assms(3) show False by auto
  next
    assume "\<exists>fl. uploads s = Listing fl \<and> (k, data) \<in> set (tree_discovered l fl)"
    with tree_discovered_exists [of s _ k data l] assms(3) show False by auto
  qed
qed

theorem stale_record_removed_witness:
  "snd (load_metadata env0 fs_stale) = Inr [(stale_id, stale_record)] \<and>
   file_still_exists fs_stale stale_record = Inr False \<and>
   snd (scan_all_uploads lib0 env0 fs_stale) = Inr [] \<and>
   stale_record \<notin> snd ` set []"
proof -
  have 1: "snd (load_metadata env0 fs_stale) = Inr [(stale_id, stale_record)]"
    by code_simp
  have 2: "(stale_id, stale_record) \<in> set [(stale_id, stale_record)]" by simp
  have 3: "file_still_exists fs_stale stale_record = Inr False" by code_simp
  have 4: "snd (scan_all_uploads lib0 env0 fs_stale) = Inr []" by code_simp
  from stale_record_removed [OF 1 2 3 4] 1 3 4 show ?thesis by simp
qed


text \<open>
  The same happens when the record names the temporary file by another spelling.
\<close>

lemma scan_twice_alias:
  "snd (scan_all_uploads lib0 env0 fs_alias) =
     Inr [(S ''x'', JObj [(S ''filepath'', JStr (S ''./photo_metadata.json.tmp''))])] \<and>
   snd (scan_all_uploads lib0 env0 (fst (scan_all_uploads lib0 env0 fs_alias))) = Inr []"
  by code_simp



text \<open>
  C3, as stated, fails: after the modification time of a known file changed, the next
  reconciliation returns the record under the old identifier as well as one under the
  new identifier, since the path of the old record still exists.
\<close>

theorem touched_file_counterexample:
  "scan_all_uploads lib0 env0 fs_before = (fs_known, Inr [(S ''a_f.txt_1.0'', record_at 1)]) \<and>
   snd (scan_all_uploads lib0 env0 (fs_known\<lparr>uploads := tree_at 2\<rparr>)) =
     Inr [(S ''a_f.txt_1.0'', record_at 1), (S ''a_f.txt_2.0'', record_at 2)]"
  by code_simp

text \<open>
  The identifiers of two files can coincide; the second file scanned then gets no
  record.
\<close>

lemma identifier_collision:
  "snd (scan_all_uploads lib0 env0 (fs0\<lparr>uploads := tree_collision\<rparr>)) =
     Inr [(S ''a_b_c.txt_2.0'',
           discovered_record lib0 (S ''a'') (S ''b_c.txt'') (S ''uploads/a/b_c.txt'')
             (S ''1970-01-01 00:00:02'') \<lparr>st_mtime = 2, st_size = 0\<rparr>)]"
  by code_simp

text \<open>
  C3, amended. A reconciliation that returns has, for every regular file of the upload
  tree whose \<open>os.stat\<close> and date formatting succeed, a record under the identifier
  made of its folder, its name and its current modification time. That record is the one
  the scan builds for the file whenever the identifier is not a key of the loaded
  metadata and no other file of the tree has the same identifier. Every record returned
  is a record of the loaded metadata whose path exists, or the record built for a file
  of the tree with that identifier. And every record of the loaded metadata whose path
  still exists is returned as it was, under its old identifier: a changed modification
  time prunes nothing.
\<close>

theorem touched_file:
  assumes "snd (load_metadata e s) = Inr metadata"
      and "snd (scan_all_uploads l e s) = Inr all_files"
    shows "(uploads s = Listing fl \<and> (folder_name, Folder es) \<in> set fl \<and>
            (filename, RegularFile (Some st)) \<in> set es \<and> strftime l (st_mtime st) = Inr date
            \<longrightarrow> has_key all_files (make_file_id l folder_name filename (st_mtime st)) \<and>
                (make_file_id l folder_name filename (st_mtime st) \<notin> fst ` set metadata \<and>
                 (\<forall>fn' es' filename' st'.
                    (fn', Folder es') \<in> set fl \<and> (filename', RegularFile (Some st')) \<in> set es' \<and>
                    make_file_id l fn' filename' (st_mtime st') =
                      make_file_id l folder_name filename (st_mtime st)
                    \<longrightarrow> fn' = folder_name \<and> filename' = filename \<and> st' = st)
                 \<longrightarrow> map_of all_files (make_file_id l folder_name filename (st_mtime st)) =
                       Some (discovered_record l folder_name filename
                               (join (join UPLOAD_BASE folder_name) filename) date st))) \<and>
           ((k, r) \<in> set all_files
            \<longrightarrow> ((k, r) \<in> set metadata \<and> file_still_exists s r = Inr True) \<or>
                (\<exists>fl' fn' es' filename' st' date'.
                   uploads s = Listing fl' \<and> (fn', Folder es') \<in> set fl' \<and>
                   (filename', RegularFile (Some st')) \<in> set es' \<and>
                   strftime l (st_mtime st') = Inr date' \<and>
                   k = make_file_id l fn' filename' (st_mtime st') \<and>
                   r = discovered_record l fn' filename' (join (join UPLOAD_BASE fn') filename')
                         date' st')) \<and>
           (distinct (map fst metadata) \<and> (old_id, data) \<in> set metadata \<and>
            file_still_exists s data = Inr True
            \<longrightarrow> (old_id, data) \<in> set all_files \<and> map_of all_files old_id = Some data)"
proof -
  from scan_parts [OF assms] obtain kept where
    kept: "keep_existing (fst (load_metadata e s)) metadata [] = Inr kept"
    and tr: "tree_result l (uploads s) kept = Inr all_files" by blast
  have dist: "distinct (map fst all_files)" using scan_distinct [OF assms] .
  have origin: "((k, r) \<in> set metadata \<and> file_still_exists s r = Inr True) \<or>
                (\<exists>fl' fn' es' filename' st' date'.
                   uploads s = Listing fl' \<and> (fn', Folder es') \<in> set fl' \<and>
                   (filename', RegularFile (Some st')) \<in> set es' \<and>
                   strftime l (st_mtime st') = Inr date' \<and>
                   k = make_file_id l fn' filename' (st_mtime st') \<and>
                   r = discovered_record l fn' filename' (join (join UPLOAD_BASE fn') filename')
                         date' st')"
    if in_a: "(k, r) \<in> set all_files" for k r
  proof -
    from tree_result_values [OF tr in_a] show ?thesis
    proof
      assume "(k, r) \<in> set kept"
      from keep_existing_values [OF kept this]
      have m: "(k, r) \<in> set metadata"
        and ok: "file_still_exists (fst (load_metadata e s)) r = Inr True" by auto
      from m loaded_cases [OF assms(1)] have "fst (load_metadata e s) = s" by auto
      with m ok show ?thesis by simp
    next
      assume "\<exists>fl'. uploads s = Listing fl' \<and> (k, r) \<in> set (tree_discovered l fl')"
      then obtain fl' where u: "uploads s = Listing fl'"
        and d: "(k, r) \<in> set (tree_discovered l fl')" by blast
      from tree_discovered_path [OF d] u show ?thesis by blast
    qed
  qed
  have new: "has_key all_files (make_file_id l folder_name filename (st_mtime st)) \<and>
             (make_file_id l folder_name filename (st_mtime st) \<notin> fst ` set metadata \<and>
                 (\<forall>fn' es' filename' st'.
                    (fn', Folder es') \<in> set fl \<and> (filename', RegularFile (Some st')) \<in> set es' \<and>
                    make_file_id l fn' filename' (st_mtime st') =
                      make_file_id l folder_name filename (st_mtime st)
                    \<longrightarrow> fn' = folder_name \<and> filename' = filename \<and> st' = st)
                 \<longrightarrow> map_of all_files (make_file_id l folder_name filename (st_mtime st)) =
                       Some (discovered_record l folder_name filename
                               (join (join UPLOAD_BASE folder_name) filename) date st))"
    if u: "uploads s = Listing fl" and f: "(folder_name, Folder es) \<in> set fl"
      and en: "(filename, RegularFile (Some st)) \<in> set es"
      and d: "strftime l (st_mtime st) = Inr date"
  proof -
    let ?k = "make_file_id l folder_name filename (st_mtime st)"
    let ?r = "discovered_record l folder_name filename
                (join (join UPLOAD_BASE folder_name) filename) date st"
    have "discovered l folder_name (join UPLOAD_BASE folder_name) filename
            (RegularFile (Some st)) = Some (?k, ?r)"
      using d by (simp add: discovered_def)
    with en have "(?k, ?r) \<in> set (files_discovered l folder_name (join UPLOAD_BASE folder_name) es)"
      by (force simp: files_discovered_def List.map_filter_def)
    with f have "(?k, ?r) \<in> set (tree_discovered l fl)"
      by (force simp: tree_discovered_def)
    then have "?k \<in> fst ` set (tree_discovered l fl)" by force
    with add_all_keys [of "tree_discovered l fl" kept]
    have "?k \<in> fst ` set (add_all (tree_discovered l fl) kept)" by blast
    with tr u have key: "has_key all_files ?k"
      by (auto simp: tree_result_def has_key_def split: if_splits)
    have rec: "map_of all_files ?k = Some ?r"
      if fresh: "?k \<notin> fst ` set metadata"
        and uniq: "\<forall>fn' es' filename' st'.
                    (fn', Folder es') \<in> set fl \<and> (filename', RegularFile (Some st')) \<in> set es' \<and>
                    make_file_id l fn' filename' (st_mtime st') = ?k
                    \<longrightarrow> fn' = folder_name \<and> filename' = filename \<and> st' = st"
    proof -
      from key obtain r' where r': "(?k, r') \<in> set all_files"
        by (auto simp: has_key_def)
      from origin [OF r'] fresh u obtain fn' es' filename' st' date' where
        "(fn', Folder es') \<in> set fl" "(filename', RegularFile (Some st')) \<in> set es'"
        "strftime l (st_mtime st') = Inr date'"
        "?k = make_file_id l fn' filename' (st_mtime st')"
        "r' = discovered_record l fn' filename' (join (join UPLOAD_BASE fn') filename') date' st'"
        by force
      with uniq d have "r' = ?r" by (metis sum.inject(2))
      with r' dist show ?thesis by (simp add: map_of_is_SomeI)
    qed
    from key rec show ?thesis by blast
  qed
  have old: "(old_id, data) \<in> set all_files \<and> map_of all_files old_id = Some data"
    if dm: "distinct (map fst metadata)" and m: "(old_id, data) \<in> set metadata"
      and ok: "file_still_exists s data = Inr True"
  proof -
    from m loaded_cases [OF assms(1)] have "fst (load_metadata e s) = s" by auto
    with kept have "keep_existing s metadata [] = Inr kept" by simp
    from keep_existing_member [OF this dm m ok] have "(old_id, data) \<in> set kept" .
    with tree_result_mono [OF tr] have "(old_id, data) \<in> set all_files" by blast
    with dist show ?thesis by (simp add: map_of_is_SomeI)
  qed
  from new origin old show ?thesis by blast
qed

theorem touched_file_witness:
  "snd (load_metadata env0 (fs_known\<lparr>uploads := tree_at 2\<rparr>)) =
     Inr [(S ''a_f.txt_1.0'', record_at 1)] \<and>
   snd (scan_all_uploads lib0 env0 (fs_known\<lparr>uploads := tree_at 2\<rparr>)) =
     Inr [(S ''a_f.txt_1.0'', record_at 1), (S ''a_f.txt_2.0'', record_at 2)] \<and>
   make_file_id lib0 (S ''a'') (S ''f.txt'') (st_mtime \<lparr>st_mtime = 2, st_size = 0\<rparr>) =
     S ''a_f.txt_2.0'' \<and>
   has_key [(S ''a_f.txt_1.0'', record_at 1), (S ''a_f.txt_2.0'', record_at 2)]
     (make_file_id lib0 (S ''a'') (S ''f.txt'') (st_mtime \<lparr>st_mtime = 2, st_size = 0\<rparr>)) \<and>
   map_of [(S ''a_f.txt_1.0'', record_at 1), (S ''a_f.txt_2.0'', record_at 2)]
     (make_file_id lib0 (S ''a'') (S ''f.txt'') (st_mtime \<lparr>st_mtime = 2, st_size = 0\<rparr>)) =
     Some (discovered_record lib0 (S ''a'') (S ''f.txt'')
             (join (join UPLOAD_BASE (S ''a'')) (S ''f.txt'')) (S ''1970-01-01 00:00:02'')
             \<lparr>st_mtime = 2, st_size = 0\<rparr>) \<and>
   map_of [(S ''a_f.txt_1.0'', record_at 1), (S ''a_f.txt_2.0'', record_at 2)]
     (S ''a_f.txt_1.0'') = Some (record_at 1)"
proof -
  let ?s = "fs_known\<lparr>uploads := tree_at 2\<rparr>"
  let ?m = "[(S ''a_f.txt_1.0'', record_at 1)]"
  let ?a = "[(S ''a_f.txt_1.0'', record_at 1), (S ''a_f.txt_2.0'', record_at 2)]"
  let ?st = "\<lparr>st_mtime = 2, st_size = 0\<rparr> :: stat_result"
  let ?es = "[(S ''f.txt'', RegularFile (Some ?st))]"
  let ?fl = "[(S ''a'', Folder ?es)]"
  let ?k = "make_file_id lib0 (S ''a'') (S ''f.txt'') (st_mtime ?st)"
  have 1: "snd (load_metadata env0 ?s) = Inr ?m" by code_simp
  have 2: "snd (scan_all_uploads lib0 env0 ?s) = Inr ?a" by code_simp
  have 3: "uploads ?s = Listing ?fl"
    by (simp add: tree_at_def)
  have 4: "strftime lib0 (st_mtime ?st) = Inr (S ''1970-01-01 00:00:02'')"
    by code_simp
  have 5: "file_still_exists ?s (record_at 1) = Inr True" by code_simp
  have 6: "?k = S ''a_f.txt_2.0''" by code_simp
  have fresh: "?k \<notin> fst ` set ?m" unfolding 6 by (simp add: S_def)
  have uniq: "\<forall>fn' es' filename' st'.
      (fn', Folder es') \<in> set ?fl \<and> (filename', RegularFile (Some st')) \<in> set es' \<and>
      make_file_id lib0 fn' filename' (st_mtime st') = ?k
      \<longrightarrow> fn' = S ''a'' \<and> filename' = S ''f.txt'' \<and> st' = ?st"
    by auto
  have A: "uploads ?s = Listing ?fl \<and> (S ''a'', Folder ?es) \<in> set ?fl \<and>
      (S ''f.txt'', RegularFile (Some ?st)) \<in> set ?es \<and>
      strftime lib0 (st_mtime ?st) = Inr (S ''1970-01-01 00:00:02'')"
    using 3 4 by (intro conjI) simp_all
  have D: "distinct (map fst ?m) \<and> (S ''a_f.txt_1.0'', record_at 1) \<in> set ?m \<and>
      file_still_exists ?s (record_at 1) = Inr True"
    using 5 by (intro conjI) simp_all
  note T = touched_file [OF 1 2, where fl = ?fl and folder_name = "S ''a''"
      and es = ?es and filename = "S ''f.txt''" and st = ?st
      and date = "S ''1970-01-01 00:00:02''" and old_id = "S ''a_f.txt_1.0''"
      and data = "record_at 1"]
  from T [THEN conjunct1, THEN mp, OF A]
  have key: "has_key ?a ?k"
    and rec: "?k \<notin> fst ` set ?m \<and>
      (\<forall>fn' es' filename' st'.
      (fn', Folder es') \<in> set ?fl \<and> (filename', RegularFile (Some st')) \<in> set es' \<and>
      make_file_id lib0 fn' filename' (st_mtime st') = ?k
      \<longrightarrow> fn' = S ''a'' \<and> filename' = S ''f.txt'' \<and> st' = ?st) \<longrightarrow>
      map_of ?a ?k =
        Some (discovered_record lib0 (S ''a'') (S ''f.txt'')
             (join (join UPLOAD_BASE (S ''a'')) (S ''f.txt'')) (S ''1970-01-01 00:00:02'') ?st)"
    by (rule conjunct1, rule conjunct2)
  from rec [THEN mp, OF conjI [OF fresh uniq]] have new: "map_of ?a ?k =
        Some (discovered_record lib0 (S ''a'') (S ''f.txt'')
             (join (join UPLOAD_BASE (S ''a'')) (S ''f.txt'')) (S ''1970-01-01 00:00:02'') ?st)" .
  from T [THEN conjunct2, THEN conjunct2, THEN mp, OF D]
  have old: "map_of ?a (S ''a_f.txt_1.0'') = Some (record_at 1)" by (rule conjunct2)
  from 1 2 6 key new old show ?thesis by (intro conjI)
qed

end
